theory Spec2Isabelle
  imports Complex_Main
begin

section \<open>Candlestick pattern detector: the data model\<close>

text \<open>
  The detector of \<^verbatim>\<open>scripts/candles pattern.py\<close> works on a pandas frame whose price
  columns have been renamed to \<^verbatim>\<open>O\<close>, \<^verbatim>\<open>H\<close>, \<^verbatim>\<open>L\<close>, \<^verbatim>\<open>C\<close>. A row of that frame is a
  record with the four prices; every other column of the table travels in the record's
  extension. A price cell is a finite double, given by its exact value, as the table
  loader delivers clean numbers. The definitions take any real as a cell; the cells the
  program can hold are the doubles among them, and the cell that the decimal numeral
  \<^verbatim>\<open>10.1\<close> of a table denotes is \<open>round_double (101 / 10)\<close>, defined below.
\<close>

record candle =
  col_O :: real
  col_H :: real
  col_L :: real
  col_C :: real

type_synonym 'a frame = "'a candle_scheme list"

datatype error =
    KeyError string
  | AttributeError string
  | TypeError string
  | IndexError
  | SyntaxError string

subsection \<open>Double precision arithmetic\<close>

text \<open>
  The columns are \<^verbatim>\<open>float64\<close>: the result of an arithmetic operation is the exact result
  rounded to the nearest double, ties to the even mantissa, and it is an infinity when
  the rounded magnitude reaches \<open>2 ^ 1024\<close>. A computed cell is a finite value, an
  infinity or NaN.
\<close>

datatype double = Fin real | PInf | NInf | NaN

text \<open>The number of binary digits of a positive integer.\<close>

function bits :: "int \<Rightarrow> int" where
  "bits n = (if n \<le> 0 then 0 else 1 + bits (n div 2))"
  by pat_completeness auto
termination
  by (relation "measure nat") auto

declare bits.simps [simp del]

text \<open>\<open>ilog2 x\<close> is the integer \<open>e\<close> with \<open>2 ^ e \<le> x < 2 ^ (e + 1)\<close>, for \<open>x > 0\<close>.\<close>

definition ilog2 :: "real \<Rightarrow> int" where
  "ilog2 x = (if 1 \<le> x then bits \<lfloor>x\<rfloor> - 1 else - bits (\<lceil>1 / x\<rceil> - 1))"

definition pow2 :: "int \<Rightarrow> real" where
  "pow2 k = (if 0 \<le> k then 2 ^ nat k else 1 / 2 ^ nat (- k))"

definition round_half_even :: "real \<Rightarrow> int" where
  "round_half_even x =
     (let n = \<lfloor>x\<rfloor>; d = x - of_int n
      in if d < 1 / 2 then n else if 1 / 2 < d then n + 1 else if even n then n else n + 1)"

text \<open>
  The spacing of the doubles around \<open>x\<close>: \<open>2 ^ - 1074\<close> below the smallest normal number
  \<open>2 ^ - 1022\<close>, and \<open>2 ^ (e - 52)\<close> for a magnitude in the binade of \<open>2 ^ e\<close>, which leaves a
  mantissa of 53 bits.
\<close>

definition quantum :: "real \<Rightarrow> real" where
  "quantum x = (if \<bar>x\<bar> < pow2 (- 1022) then pow2 (- 1074) else pow2 (ilog2 \<bar>x\<bar> - 52))"

text \<open>
  The double nearest to a real number, before the test for overflow. It is also the
  value that a decimal literal of the source denotes: \<^verbatim>\<open>0.1\<close> is \<open>round_double (1 / 10)\<close>.
\<close>

definition round_double :: "real \<Rightarrow> real" where
  "round_double x = (let q = quantum x in of_int (round_half_even (x / q)) * q)"

definition fl :: "real \<Rightarrow> double" where
  "fl x =
     (let y = round_double x
      in if pow2 1024 \<le> y then PInf else if y \<le> - pow2 1024 then NInf else Fin y)"

text \<open>Subtraction of two finite cells, the absolute value, the product with a finite scalar.\<close>

definition fsub :: "real \<Rightarrow> real \<Rightarrow> double" where
  "fsub a b = fl (a - b)"

definition fabs :: "double \<Rightarrow> double" where
  "fabs x = (case x of Fin v \<Rightarrow> Fin \<bar>v\<bar> | PInf \<Rightarrow> PInf | NInf \<Rightarrow> PInf | NaN \<Rightarrow> NaN)"

definition fmul :: "real \<Rightarrow> double \<Rightarrow> double" where
  "fmul k x =
     (case x of
        Fin v \<Rightarrow> fl (k * v)
      | PInf \<Rightarrow> (if 0 < k then PInf else if k < 0 then NInf else NaN)
      | NInf \<Rightarrow> (if 0 < k then NInf else if k < 0 then PInf else NaN)
      | NaN \<Rightarrow> NaN)"

text \<open>\<^verbatim>\<open>x < y\<close> on doubles: false when an operand is NaN.\<close>

fun dlt :: "double \<Rightarrow> double \<Rightarrow> bool" where
  "dlt NaN y = False"
| "dlt x NaN = False"
| "dlt (Fin a) (Fin b) = (a < b)"
| "dlt (Fin a) PInf = True"
| "dlt (Fin a) NInf = False"
| "dlt PInf y = False"
| "dlt NInf NInf = False"
| "dlt NInf y = True"

subsection \<open>Series operations\<close>

text \<open>
  A Series is a list of cells, one per row, where \<open>None\<close> is the missing value
  (\<^verbatim>\<open>pd.NA\<close>, or the \<^verbatim>\<open>NaN\<close> that \<^verbatim>\<open>shift\<close> fills in): \<open>series\<close> for a price column,
  \<open>dseries\<close> for a computed column, \<open>bseries\<close> for a boolean one.
\<close>

type_synonym series = "real option list"
type_synonym dseries = "double option list"
type_synonym bseries = "bool option list"

text \<open>\<^verbatim>\<open>df["O"]\<close>: the column of a frame as a Series.\<close>

definition column :: "('a candle_scheme \<Rightarrow> real) \<Rightarrow> 'a frame \<Rightarrow> series" where
  "column f df = map (\<lambda>r. Some (f r)) df"

text \<open>Elementwise binary operations: a missing operand gives a missing result.\<close>

definition lift2 :: "('a \<Rightarrow> 'b \<Rightarrow> 'c) \<Rightarrow> 'a option \<Rightarrow> 'b option \<Rightarrow> 'c option" where
  "lift2 f x y = (case x of None \<Rightarrow> None | Some a \<Rightarrow> (case y of None \<Rightarrow> None | Some b \<Rightarrow> Some (f a b)))"

definition fsub_s :: "series \<Rightarrow> series \<Rightarrow> dseries" where
  "fsub_s xs ys = map2 (lift2 fsub) xs ys"

definition fabs_s :: "dseries \<Rightarrow> dseries" where
  "fabs_s xs = map (map_option fabs) xs"

text \<open>
  \<^verbatim>\<open>s.replace(0, pd.NA)\<close>: every cell equal to zero becomes \<^verbatim>\<open>pd.NA\<close>. A column in which
  a cell was replaced is no longer a \<^verbatim>\<open>float64\<close> column but a column of Python objects.
\<close>

definition replace_na :: "double \<Rightarrow> dseries \<Rightarrow> dseries" where
  "replace_na v xs = map (\<lambda>x. if x = Some v then None else x) xs"

text \<open>\<^verbatim>\<open>k * s\<close> for a scalar \<open>k\<close>; \<^verbatim>\<open>k * pd.NA\<close> is \<^verbatim>\<open>pd.NA\<close>.\<close>

definition fmul_s :: "real \<Rightarrow> dseries \<Rightarrow> dseries" where
  "fmul_s k xs = map (map_option (fmul k)) xs"

text \<open>
  \<^verbatim>\<open>a < b\<close> on computed columns. When a column holds \<^verbatim>\<open>pd.NA\<close> the comparison of that
  cell gives \<^verbatim>\<open>pd.NA\<close>, the array of results asks for its truth value, and that raises
  \<^verbatim>\<open>TypeError\<close>.
\<close>

definition lt_ds :: "dseries \<Rightarrow> dseries \<Rightarrow> error + bseries" where
  "lt_ds xs ys =
     (if None \<in> set xs \<or> None \<in> set ys
      then Inl (TypeError ''boolean value of NA is ambiguous'')
      else Inr (map2 (lift2 dlt) xs ys))"

text \<open>
  Comparisons of price columns, one of which may come from a shifted frame. They
  compare the cells as they are, without arithmetic.
\<close>

definition lt_s :: "series \<Rightarrow> series \<Rightarrow> bseries" where
  "lt_s xs ys = map2 (lift2 (\<lambda>a b. a < b)) xs ys"

definition le_s :: "series \<Rightarrow> series \<Rightarrow> bseries" where
  "le_s xs ys = map2 (lift2 (\<lambda>a b. a \<le> b)) xs ys"

definition ge_s :: "series \<Rightarrow> series \<Rightarrow> bseries" where
  "ge_s xs ys = map2 (lift2 (\<lambda>a b. a \<ge> b)) xs ys"

definition gt_s :: "series \<Rightarrow> series \<Rightarrow> bseries" where
  "gt_s xs ys = map2 (lift2 (\<lambda>a b. a > b)) xs ys"

text \<open>
  \<^verbatim>\<open>a & b\<close> on boolean Series with missing values: false wins over missing, missing over
  true.
\<close>

definition and_na :: "bool option \<Rightarrow> bool option \<Rightarrow> bool option" where
  "and_na x y =
     (if x = Some False \<or> y = Some False then Some False
      else if x = None \<or> y = None then None
      else Some True)"

definition and_s :: "bseries \<Rightarrow> bseries \<Rightarrow> bseries" where
  "and_s xs ys = map2 and_na xs ys"

text \<open>\<^verbatim>\<open>s.fillna(d)\<close>: the missing cells take the value \<open>d\<close>.\<close>

definition fillna :: "bool \<Rightarrow> bseries \<Rightarrow> bool list" where
  "fillna d xs = map (\<lambda>x. case x of None \<Rightarrow> d | Some b \<Rightarrow> b) xs"

section \<open>The Doji rule\<close>

text \<open>
  \<^verbatim>\<open>
  def detect_doji(df, threshold=0.1):
      body = (df["O"] - df["C"]).abs()
      rng = (df["H"] - df["L"]).abs().replace(0, pd.NA)
      is_doji = body < (threshold * rng)
      return is_doji.fillna(False)
  \<close>
  The comparison is the statement that can raise: it does when \<open>rng\<close> holds a
  \<^verbatim>\<open>pd.NA\<close>, that is when some row of the frame has range zero.
\<close>

definition detect_doji :: "'a frame \<Rightarrow> real \<Rightarrow> error + bool list" where
  "detect_doji df threshold =
     (let body = fabs_s (fsub_s (column col_O df) (column col_C df));
          rng = replace_na (Fin 0) (fabs_s (fsub_s (column col_H df) (column col_L df)))
      in case lt_ds body (fmul_s threshold rng) of
           Inl e \<Rightarrow> Inl e
         | Inr is_doji \<Rightarrow> Inr (fillna False is_doji))"

definition default_threshold :: real where
  "default_threshold = round_double (1 / 10)"

text \<open>A row whose computed range \<open>|H - L|\<close> is zero.\<close>

definition zero_range :: "'a candle_scheme \<Rightarrow> bool" where
  "zero_range r = (fabs (fsub (col_H r) (col_L r)) = Fin 0)"

section \<open>The Engulfing rule\<close>

text \<open>
  \<^verbatim>\<open>df.shift(1)\<close>: every row moves one position down, the first row becomes missing in
  every column and the last row drops out, so the frame keeps its length.
\<close>

definition shift :: "'a list \<Rightarrow> 'a option list" where
  "shift df = take (length df) (None # map Some df)"

text \<open>A column of a shifted frame: missing where the row is missing.\<close>

definition column_opt :: "('a candle_scheme \<Rightarrow> real) \<Rightarrow> 'a candle_scheme option list \<Rightarrow> series" where
  "column_opt f prev = map (map_option f) prev"

text \<open>\<^verbatim>\<open>out[mask] = v\<close>: the cells of \<open>out\<close> where the mask is true take the value \<open>v\<close>.\<close>

definition assign_where :: "'b list \<Rightarrow> bool list \<Rightarrow> 'b \<Rightarrow> 'b list" where
  "assign_where out msk v = map2 (\<lambda>x m. if m then v else x) out msk"

text \<open>
  \<^verbatim>\<open>
  def detect_engulfing(df):
      prev = df.shift(1)
      prev_bear = prev["C"] < prev["O"]
      prev_bull = prev["C"] > prev["O"]
      curr_bear = df["C"] < df["O"]
      curr_bull = df["C"] > df["O"]
      be_mask = prev_bear & curr_bull & (df["O"] <= prev["C"]) & (df["C"] >= prev["O"])
      se_mask = prev_bull & curr_bear & (df["O"] >= prev["C"]) & (df["C"] <= prev["O"])
      out = pd.Series([""] * len(df), index=df.index)
      out[be_mask.fillna(False)] = "Bullish Engulfing"
      out[se_mask.fillna(False)] = "Bearish Engulfing"
      return out
  \<close>
  The masks are the source's local variables of the same names.
\<close>

definition prev_bear :: "'a frame \<Rightarrow> bseries" where
  "prev_bear df = (let prev = shift df in lt_s (column_opt col_C prev) (column_opt col_O prev))"

definition prev_bull :: "'a frame \<Rightarrow> bseries" where
  "prev_bull df = (let prev = shift df in gt_s (column_opt col_C prev) (column_opt col_O prev))"

definition curr_bear :: "'a frame \<Rightarrow> bseries" where
  "curr_bear df = lt_s (column col_C df) (column col_O df)"

definition curr_bull :: "'a frame \<Rightarrow> bseries" where
  "curr_bull df = gt_s (column col_C df) (column col_O df)"

definition be_mask :: "'a frame \<Rightarrow> bseries" where
  "be_mask df =
     (let prev = shift df in
      and_s (and_s (and_s (prev_bear df) (curr_bull df))
                   (le_s (column col_O df) (column_opt col_C prev)))
            (ge_s (column col_C df) (column_opt col_O prev)))"

definition se_mask :: "'a frame \<Rightarrow> bseries" where
  "se_mask df =
     (let prev = shift df in
      and_s (and_s (and_s (prev_bull df) (curr_bear df))
                   (ge_s (column col_O df) (column_opt col_C prev)))
            (le_s (column col_C df) (column_opt col_O prev)))"

definition detect_engulfing :: "'a frame \<Rightarrow> string list" where
  "detect_engulfing df =
     (let out = replicate (length df) '''';
          out = assign_where out (fillna False (be_mask df)) ''Bullish Engulfing'';
          out = assign_where out (fillna False (se_mask df)) ''Bearish Engulfing''
      in out)"

section \<open>The Hammer-like rule\<close>

text \<open>
  \<^verbatim>\<open>
  def detect_hammer(df, body_to_range=0.25, lower_wick_min=2.0):
      body = (df["O"] - df["C"]).abs()
      upper_wick = (df["H"] - df[["O", "C"]].max(axis=1)).abs()
      lower_wick = (df[["O", "C"].min(axis=1) - df["L"]]).abs()
      rng = (df["H"] - df["L"]).abs().replace(0, pd.NA)
      small_body = body <= (body_to_range * rng)
      strong_lower = lower_wick >= (lower_wick_min * body.clip(lower=1e-9))
      small_upper = upper_wick <= (body * lower_wick_min)
      return (small_body & strong_lower & small_upper).fillna(False)
  \<close>
  In the third statement the bracket that should close \<^verbatim>\<open>df[["O", "C"]]\<close> closes after
  \<^verbatim>\<open>df["L"]\<close> instead, so \<^verbatim>\<open>.min(axis=1)\<close> is looked up on the Python list
  \<^verbatim>\<open>["O", "C"]\<close>, not on a frame.
\<close>

text \<open>\<^verbatim>\<open>df[["O", "C"]].max(axis=1)\<close>: the row-wise maximum, missing cells skipped.\<close>

definition max_axis1 :: "series \<Rightarrow> series \<Rightarrow> series" where
  "max_axis1 xs ys =
     map2 (\<lambda>x y. case x of None \<Rightarrow> y
                 | Some a \<Rightarrow> (case y of None \<Rightarrow> Some a | Some b \<Rightarrow> Some (max a b))) xs ys"

text \<open>
  Attribute lookup on a built-in list: the method names a list answers to (the names
  with double underscores left out); any other name raises \<^verbatim>\<open>AttributeError\<close>.
\<close>

definition list_methods :: "string list" where
  "list_methods = [''append'', ''clear'', ''copy'', ''count'', ''extend'', ''index'',
                   ''insert'', ''pop'', ''remove'', ''reverse'', ''sort'']"

definition getattr_list :: "string \<Rightarrow> error + string" where
  "getattr_list name = (if name \<in> set list_methods then Inr name else Inl (AttributeError name))"

text \<open>
  A list method called with the keyword argument \<^verbatim>\<open>axis\<close>: none of them accepts it, the
  call raises \<^verbatim>\<open>TypeError\<close>.
\<close>

definition call_with_axis :: "string \<Rightarrow> error + bool list" where
  "call_with_axis meth = Inl (TypeError meth)"

text \<open>
  The statements run in order: \<open>body\<close> and \<open>upper_wick\<close> are computed, then the lookup
  of \<^verbatim>\<open>min\<close> on the list decides. No path reaches the statements after it.
\<close>

definition detect_hammer :: "'a frame \<Rightarrow> real \<Rightarrow> real \<Rightarrow> error + bool list" where
  "detect_hammer df body_to_range lower_wick_min =
     (let body = fabs_s (fsub_s (column col_O df) (column col_C df));
          upper_wick = fabs_s (fsub_s (column col_H df)
                                      (max_axis1 (column col_O df) (column col_C df)))
      in case getattr_list ''min'' of
           Inl e \<Rightarrow> Inl e
         | Inr meth \<Rightarrow> call_with_axis meth)"

definition default_body_to_range :: real where
  "default_body_to_range = 1 / 4"

definition default_lower_wick_min :: real where
  "default_lower_wick_min = 2"

text \<open>
  The rule as the specification words it, on one candle: small body, long lower wick
  (against the body floored at \<open>epsilon = 1e-9\<close>), short upper wick, and false on a
  candle of range zero. It is the reference the source's function is compared with.
\<close>

definition hammer_like_spec :: "real \<Rightarrow> real \<Rightarrow> 'a candle_scheme \<Rightarrow> bool" where
  "hammer_like_spec body_to_range lower_wick_min c =
     (let body = \<bar>col_O c - col_C c\<bar>;
          upper_wick = col_H c - max (col_O c) (col_C c);
          lower_wick = min (col_O c) (col_C c) - col_L c;
          rng = \<bar>col_H c - col_L c\<bar>
      in rng \<noteq> 0 \<and>
         body \<le> body_to_range * rng \<and>
         lower_wick \<ge> lower_wick_min * max body (1 / 10 ^ 9) \<and>
         upper_wick \<le> body * lower_wick_min)"

section \<open>The combiner\<close>

text \<open>
  A row of the output: the input row with the three rule columns, and then with the
  \<^verbatim>\<open>Pattern\<close> column.
\<close>

record 'a labelled =
  row :: "'a candle_scheme"
  Doji :: bool
  HammerLike :: bool
  Engulfing :: string

record 'a detected = "'a labelled" +
  Pattern :: string

text \<open>\<^verbatim>\<open>sep.join(parts)\<close>.\<close>

fun str_join :: "string \<Rightarrow> string list \<Rightarrow> string" where
  "str_join sep [] = []"
| "str_join sep [x] = x"
| "str_join sep (x # y # ys) = x @ sep @ str_join sep (y # ys)"

text \<open>
  \<^verbatim>\<open>
  def _combine(row):
      parts = []
      if row["Doji"]:
          parts.append("Doji")
      if row["HammerLike"]:
          parts.append("HammerLike")
      if row["Engulfing"]:
          parts.append(row["Engulfing"])
      return ", ".join(parts)
  \<close>
  A string is true in a condition when it is not empty.
\<close>

definition combine :: "('a, 'b) labelled_scheme \<Rightarrow> string" where
  "combine r =
     (let parts = [];
          parts = (if Doji r then parts @ [''Doji''] else parts);
          parts = (if HammerLike r then parts @ [''HammerLike''] else parts);
          parts = (if Engulfing r \<noteq> [] then parts @ [Engulfing r] else parts)
      in str_join '', '' parts)"

text \<open>
  \<^verbatim>\<open>
  def detect_patterns(df):
      df2 = df.copy()
      df2["Doji"] = detect_doji(df2)
      df2["HammerLike"] = detect_hammer(df2)
      df2["Engulfing"] = detect_engulfing(df2)
      df2["Pattern"] = df2.apply(_combine, axis=1)
      return df2
  \<close>
  The three rules run in this order with their default parameters; an exception of a
  rule leaves the function at that call, so the Doji rule's exception comes before the
  Hammer-like rule is called.
\<close>

definition detect_patterns :: "'a frame \<Rightarrow> error + 'a detected list" where
  "detect_patterns df =
     (let df2 = df
      in case detect_doji df2 default_threshold of
           Inl e \<Rightarrow> Inl e
         | Inr doji \<Rightarrow>
             (case detect_hammer df2 default_body_to_range default_lower_wick_min of
                Inl e \<Rightarrow> Inl e
              | Inr hammer \<Rightarrow>
                  (let engulfing = detect_engulfing df2;
                       df3 = map (\<lambda>(r, d, h, e). \<lparr>row = r, Doji = d, HammerLike = h, Engulfing = e\<rparr>)
                                 (zip df2 (zip doji (zip hammer engulfing)))
                   in Inr (map (\<lambda>r. \<lparr>row = row r, Doji = Doji r, HammerLike = HammerLike r,
                                       Engulfing = Engulfing r, Pattern = combine r\<rparr>) df3))))"

section \<open>Column normalisation and the command line\<close>

text \<open>\<^verbatim>\<open>str.lower\<close> and \<^verbatim>\<open>str.upper\<close> on the ASCII letters.\<close>

definition lower_char :: "char \<Rightarrow> char" where
  "lower_char c = (let n = (of_char c :: nat) in if 65 \<le> n \<and> n \<le> 90 then char_of (n + 32) else c)"

definition upper_char :: "char \<Rightarrow> char" where
  "upper_char c = (let n = (of_char c :: nat) in if 97 \<le> n \<and> n \<le> 122 then char_of (n - 32) else c)"

definition lower :: "string \<Rightarrow> string" where
  "lower s = map lower_char s"

definition required :: "string list" where
  "required = [''open'', ''high'', ''low'', ''close'']"

text \<open>The message of the \<^verbatim>\<open>KeyError\<close>, with the column name between single quotes.\<close>

definition missing_msg :: "string \<Rightarrow> string" where
  "missing_msg name =
     ''Input CSV must contain column '' @ [CHR 0x27] @ name @ [CHR 0x27] @ '' (case-insensitive)''"

text \<open>
  \<^verbatim>\<open>
  def _normalize_cols(df):
      cols = {c.lower(): c for c in df.columns}
      mapping = {}
      for name in ("open", "high", "low", "close"):
          if name in cols:
              mapping[cols[name]] = name[0].upper()
          else:
              raise KeyError(f"Input CSV must contain column '{name}' (case-insensitive)")
      df = df.rename(columns=mapping)
      return df
  \<close>
  The function reads and changes the column names only, so the model works on the list
  of names. In the dictionary \<open>cols\<close> a later column overwrites an earlier one of the
  same lower-case name.
\<close>

definition cols_of :: "string list \<Rightarrow> (string \<rightharpoonup> string)" where
  "cols_of columns = fold (\<lambda>c m. m(lower c \<mapsto> c)) columns Map.empty"

fun build_mapping ::
  "(string \<rightharpoonup> string) \<Rightarrow> string list \<Rightarrow> (string \<rightharpoonup> string) \<Rightarrow> error + (string \<rightharpoonup> string)" where
  "build_mapping cols [] mapping = Inr mapping"
| "build_mapping cols (name # names) mapping =
     (case cols name of
        None \<Rightarrow> Inl (KeyError (missing_msg name))
      | Some c \<Rightarrow>
          (case name of
             [] \<Rightarrow> Inl IndexError
           | ch # _ \<Rightarrow> build_mapping cols names (mapping(c \<mapsto> [upper_char ch]))))"

definition rename :: "(string \<rightharpoonup> string) \<Rightarrow> string list \<Rightarrow> string list" where
  "rename mapping columns = map (\<lambda>c. case mapping c of None \<Rightarrow> c | Some n \<Rightarrow> n) columns"

definition normalize_cols :: "string list \<Rightarrow> error + string list" where
  "normalize_cols columns =
     (case build_mapping (cols_of columns) required Map.empty of
        Inl e \<Rightarrow> Inl e
      | Inr mapping \<Rightarrow> Inr (rename mapping columns))"

text \<open>
  The command line: the input path, the optional output path and the plot flag. What a
  run does outside the process is a list of events; a run ends with an exit code or
  with an exception that nothing catches.
\<close>

record args =
  arg_input :: string
  arg_output :: "string option"
  arg_plot :: bool

datatype 'a event =
    Stderr string
  | Stdout string
  | StdoutCsv "'a detected list"
  | WriteCsv string "'a detected list"
  | PlotCandles

text \<open>
  \<^verbatim>\<open>str(e)\<close> of a \<^verbatim>\<open>KeyError\<close> is the \<^verbatim>\<open>repr\<close> of its message; the message holds single
  quotes, so it is printed between double quotes.
\<close>

definition str_KeyError :: "string \<Rightarrow> string" where
  "str_KeyError msg = [CHR 0x22] @ msg @ [CHR 0x22]"

text \<open>
  \<^verbatim>\<open>
  def main(argv=None):
      ...
      df = pd.read_csv(args.input)
      try:
          df = _normalize_cols(df)
      except KeyError as e:
          print(str(e), file=sys.stderr)
          return 2
      out = detect_patterns(df)
      if args.output:
          out.to_csv(args.output, index=False)
          print(f"Wrote detections to {args.output}")
      else:
          print(out.to_csv(index=False))
      if args.plot:
          try:
              ... mpf.plot(...)
          except Exception as e:
              print("Plot failed (mplfinance required):", e, file=sys.stderr)
      return 0
  \<close>
  The table that \<^verbatim>\<open>read_csv\<close> loads is given by its column names and its rows; the
  plotting library is outside the program, and \<open>plot_exn\<close> is the message of the
  exception it raises, if it raises one.
\<close>

definition main ::
  "args \<Rightarrow> string list \<Rightarrow> 'a frame \<Rightarrow> string option \<Rightarrow> 'a event list \<times> (error + int)" where
  "main a columns df plot_exn =
     (case normalize_cols columns of
        Inl (KeyError msg) \<Rightarrow> ([Stderr (str_KeyError msg)], Inr 2)
      | Inl e \<Rightarrow> ([], Inl e)
      | Inr columns' \<Rightarrow>
          (case detect_patterns df of
             Inl e \<Rightarrow> ([], Inl e)
           | Inr out \<Rightarrow>
               (let written =
                      (case arg_output a of
                         None \<Rightarrow> [StdoutCsv out]
                       | Some path \<Rightarrow>
                           if path \<noteq> [] then [WriteCsv path out, Stdout (''Wrote detections to '' @ path)]
                           else [StdoutCsv out]);
                    plotted =
                      (if arg_plot a then
                         (case plot_exn of
                            None \<Rightarrow> [PlotCandles]
                          | Some e \<Rightarrow> [Stderr (''Plot failed (mplfinance required): '' @ e)])
                       else [])
                in (written @ plotted, Inr 0))))"

text \<open>
  The script as a program. Before anything runs, the interpreter compiles the module.
  Its top-level statements are, in order: a string literal (lines 1 to 2, the module's
  docstring), a second string literal (lines 3 to 18), \<^verbatim>\<open>from __future__ import annotations\<close>
  (line 20), four imports, six function definitions and the \<^verbatim>\<open>if __name__ == "__main__"\<close>
  statement.
\<close>

datatype stmt = StringExpr | FutureImport | Import | FunctionDef | IfStmt

definition module_body :: "stmt list" where
  "module_body =
     [StringExpr, StringExpr, FutureImport, Import, Import, Import, Import,
      FunctionDef, FunctionDef, FunctionDef, FunctionDef, FunctionDef, FunctionDef, IfStmt]"

text \<open>
  A \<^verbatim>\<open>from __future__\<close> import may only follow the docstring and other such imports:
  once another statement has been seen, it is a \<^verbatim>\<open>SyntaxError\<close>.
\<close>

fun future_ok :: "bool \<Rightarrow> stmt list \<Rightarrow> bool" where
  "future_ok seen [] = True"
| "future_ok seen (FutureImport # ss) = (\<not> seen \<and> future_ok seen ss)"
| "future_ok seen (s # ss) = future_ok True ss"

definition compile_module :: "stmt list \<Rightarrow> error + unit" where
  "compile_module body =
     (let rest = (case body of StringExpr # ss \<Rightarrow> ss | _ \<Rightarrow> body)
      in if future_ok False rest then Inr ()
         else Inl (SyntaxError ''from __future__ imports must occur at the beginning of the file''))"

text \<open>
  \<^verbatim>\<open>python "scripts/candles pattern.py" input.csv ...\<close>: the module is compiled, then its
  last statement runs \<^verbatim>\<open>raise SystemExit(main())\<close>. An exception that nothing catches ends
  the interpreter with status 1.
\<close>

definition run_script ::
  "args \<Rightarrow> string list \<Rightarrow> 'a frame \<Rightarrow> string option \<Rightarrow> 'a event list \<times> (error + int)" where
  "run_script a columns df plot_exn =
     (case compile_module module_body of
        Inl e \<Rightarrow> ([], Inl e)
      | Inr u \<Rightarrow> main a columns df plot_exn)"

definition exit_status :: "error + int \<Rightarrow> int" where
  "exit_status r = (case r of Inl e \<Rightarrow> 1 | Inr code \<Rightarrow> code)"

section \<open>Properties of the double arithmetic\<close>

lemma pow2_powr: "pow2 k = 2 powr (real_of_int k)"
proof (cases "0 \<le> k")
  case True
  then obtain n where "k = int n"
    using zero_le_imp_eq_int by blast
  then show ?thesis
    by (simp add: pow2_def powr_realpow)
next
  case False
  then obtain n where "k = - int n"
    by (metis int_cases2 of_nat_0_le_iff)
  then show ?thesis
    using False by (simp add: pow2_def powr_minus powr_realpow inverse_eq_divide)
qed

lemma pow2_pos: "0 < pow2 k"
  by (simp add: pow2_powr)

lemma pow2_less: "a < b \<Longrightarrow> pow2 a < pow2 b"
  by (simp add: pow2_powr)

lemma pow2_half: "pow2 k / 2 = pow2 (k - 1)"
  by (simp add: pow2_powr powr_diff)

lemma round_half_even_small: "0 \<le> x \<Longrightarrow> x < 1 / 2 \<Longrightarrow> round_half_even x = 0"
proof -
  assume "0 \<le> x" "x < 1 / 2"
  then have "\<lfloor>x\<rfloor> = 0" by linarith
  with \<open>x < 1 / 2\<close> show ?thesis by (simp add: round_half_even_def)
qed

lemma round_half_even_1: "round_half_even 1 = 1"
  by (simp add: round_half_even_def)

lemma round_double_0: "round_double 0 = 0"
  by (simp add: round_double_def round_half_even_def)

lemma fl_0: "fl 0 = Fin 0"
  using pow2_pos [of 1024] by (simp add: fl_def round_double_0)

lemma fsub_same: "fsub a a = Fin 0"
  by (simp add: fsub_def fl_0)

lemma quantum_subnormal: "\<bar>x\<bar> < pow2 (- 1022) \<Longrightarrow> quantum x = pow2 (- 1074)"
  by (simp add: quantum_def)

text \<open>A product below half of the smallest positive double rounds to zero.\<close>

lemma fl_underflow:
  assumes "0 \<le> x" and "x < pow2 (- 1075)"
  shows "fl x = Fin 0"
proof -
  have "pow2 (- 1075) < pow2 (- 1022)"
    by (rule pow2_less) simp
  with assms have q: "quantum x = pow2 (- 1074)"
    by (intro quantum_subnormal) simp
  have half: "pow2 (- 1074) / 2 = pow2 (- 1075)"
    using pow2_half [of "- 1074"] by simp
  from assms(2) half have "x < pow2 (- 1074) / 2"
    by simp
  then have "x / pow2 (- 1074) < 1 / 2"
    using pow2_pos [of "- 1074"] by (simp add: field_simps)
  moreover from assms(1) have "0 \<le> x / pow2 (- 1074)"
    using pow2_pos [of "- 1074"] by simp
  ultimately have "round_half_even (x / pow2 (- 1074)) = 0"
    by (intro round_half_even_small)
  with q have "round_double x = 0"
    by (simp add: round_double_def)
  then show ?thesis
    using pow2_pos [of 1024] by (simp add: fl_def)
qed

text \<open>The smallest positive double is a double.\<close>

lemma fl_min_subnormal: "fl (pow2 (- 1074)) = Fin (pow2 (- 1074))"
proof -
  have "pow2 (- 1074) < pow2 (- 1022)"
    by (rule pow2_less) simp
  then have q: "quantum (pow2 (- 1074)) = pow2 (- 1074)"
    using pow2_pos [of "- 1074"] by (intro quantum_subnormal) simp
  have r: "round_double (pow2 (- 1074)) = pow2 (- 1074)"
    using pow2_pos [of "- 1074"] by (simp add: round_double_def q round_half_even_1)
  have "pow2 (- 1074) < pow2 1024"
    by (rule pow2_less) simp
  then show ?thesis
    using pow2_pos [of "- 1074"] pow2_pos [of 1024] by (simp add: fl_def r)
qed

text \<open>
  Evaluation of a rounding in the normal range: with the binade \<open>e\<close> of \<open>x\<close> at hand, the
  rounded value is a quotient of integers.
\<close>

lemma round_double_normal:
  assumes lo: "1 / 2 ^ 64 \<le> \<bar>x\<bar>"
    and e: "ilog2 \<bar>x\<bar> = e"
    and y: "real_of_int (round_half_even (x / pow2 (e - 52))) * pow2 (e - 52) = y"
  shows "round_double x = y"
proof -
  have "pow2 (- 1022) < pow2 (- 64)"
    by (rule pow2_less) simp
  also have "pow2 (- 64) = 1 / 2 ^ 64"
    by (simp add: pow2_def)
  finally have "\<not> \<bar>x\<bar> < pow2 (- 1022)"
    using lo by linarith
  then have "quantum x = pow2 (e - 52)"
    by (simp add: quantum_def e)
  then show ?thesis
    by (simp add: round_double_def y)
qed

lemma fl_normal:
  assumes lo: "1 / 2 ^ 64 \<le> \<bar>x\<bar>"
    and e: "ilog2 \<bar>x\<bar> = e"
    and y: "real_of_int (round_half_even (x / pow2 (e - 52))) * pow2 (e - 52) = y"
    and hi: "\<bar>y\<bar> < 2 ^ 64"
  shows "fl x = Fin y"
proof -
  have r: "round_double x = y"
    using lo e y by (rule round_double_normal)
  have "pow2 64 < pow2 1024"
    by (rule pow2_less) simp
  moreover have "pow2 64 = 2 ^ 64"
    by (simp add: pow2_def)
  ultimately have "\<bar>y\<bar> < pow2 1024"
    using hi by linarith
  then have "\<not> pow2 1024 \<le> y" and "\<not> y \<le> - pow2 1024"
    by linarith+
  then show ?thesis
    by (simp add: fl_def r)
qed

lemmas eval_defs = ilog2_def bits.simps pow2_def round_half_even_def

lemma default_threshold_value: "default_threshold = 3602879701896397 / 2 ^ 55"
  unfolding default_threshold_def
  by (rule round_double_normal [where e = "- 4"]) (simp_all add: eval_defs)

lemma default_threshold_bounds: "0 < default_threshold" "default_threshold < 1 / 2"
  by (simp_all add: default_threshold_value)

section \<open>Properties of the Doji rule\<close>

lemma None_in_replace:
  "(None \<in> set (replace_na (Fin 0) (fabs_s (fsub_s (column col_H df) (column col_L df))))) =
   (\<exists>r \<in> set df. zero_range r)"
  by (induction df)
     (auto simp add: replace_na_def fabs_s_def fsub_s_def column_def lift2_def zero_range_def)

lemma None_notin_body: "None \<notin> set (fabs_s (fsub_s (column col_O df) (column col_C df)))"
  by (induction df) (auto simp add: fabs_s_def fsub_s_def column_def lift2_def)

lemma None_in_fmul_s: "(None \<in> set (fmul_s k xs)) = (None \<in> set xs)"
  by (induction xs) (auto simp add: fmul_s_def)

lemma doji_cells:
  "\<not> (\<exists>r \<in> set df. zero_range r) \<Longrightarrow>
   fillna False
     (map2 (lift2 dlt) (fabs_s (fsub_s (column col_O df) (column col_C df)))
        (fmul_s threshold
           (replace_na (Fin 0) (fabs_s (fsub_s (column col_H df) (column col_L df)))))) =
   map (\<lambda>r. dlt (fabs (fsub (col_O r) (col_C r)))
                (fmul threshold (fabs (fsub (col_H r) (col_L r))))) df"
  by (induction df)
     (auto simp add: fillna_def fmul_s_def replace_na_def fabs_s_def fsub_s_def column_def
        lift2_def zero_range_def)

lemma detect_doji_zero_range:
  "\<exists>r \<in> set df. zero_range r \<Longrightarrow>
   detect_doji df threshold = Inl (TypeError ''boolean value of NA is ambiguous'')"
  by (simp add: detect_doji_def lt_ds_def None_in_fmul_s None_in_replace Let_def)

lemma detect_doji_rows:
  "\<not> (\<exists>r \<in> set df. zero_range r) \<Longrightarrow>
   detect_doji df threshold =
     Inr (map (\<lambda>r. dlt (fabs (fsub (col_O r) (col_C r)))
                     (fmul threshold (fabs (fsub (col_H r) (col_L r))))) df)"
  using doji_cells [of df threshold]
  by (simp add: detect_doji_def lt_ds_def None_in_fmul_s None_in_replace None_notin_body Let_def)

lemma zero_range_flat: "col_H r = col_L r \<Longrightarrow> zero_range r"
  by (simp add: zero_range_def fsub_same fabs_def)

lemma detect_doji_flat_row:
  "r \<in> set df \<Longrightarrow> col_H r = col_L r \<Longrightarrow>
   detect_doji df threshold = Inl (TypeError ''boolean value of NA is ambiguous'')"
  using zero_range_flat [of r] by (intro detect_doji_zero_range) blast

text \<open>
  C2. The Doji rule is specified to return false, not an error, for a candle whose range
  is zero. On the frame of the one candle with open, high, low and close all 10, and on
  the frame of that candle followed by the candle (10, 10.5, 9.75, 10.0625), the function
  of the source raises \<^verbatim>\<open>TypeError\<close> and classifies no row.
\<close>

theorem detect_doji_zero_range_raises:
  "detect_doji [\<lparr>col_O = 10, col_H = 10, col_L = 10, col_C = 10\<rparr>] default_threshold
     = Inl (TypeError ''boolean value of NA is ambiguous'') \<and>
   detect_doji [\<lparr>col_O = 10, col_H = 10, col_L = 10, col_C = 10\<rparr>,
                \<lparr>col_O = 10, col_H = 21 / 2, col_L = 39 / 4, col_C = 161 / 16\<rparr>] default_threshold
     = Inl (TypeError ''boolean value of NA is ambiguous'')"
  by (simp add: detect_doji_flat_row [of "\<lparr>col_O = 10, col_H = 10, col_L = 10, col_C = 10\<rparr>"])

text \<open>
  C10, as first stated: every candle with open equal to close and high different from
  low is a Doji for every positive threshold, however small the range. It fails for the
  candle with open, low and close 0 and high \<open>2 ^ - 1074\<close>, the smallest positive double,
  at the default threshold: the product of the threshold and the range rounds to zero,
  and the body, zero, is not below it.
\<close>

theorem detect_doji_underflow:
  "col_O \<lparr>col_O = 0, col_H = pow2 (- 1074), col_L = 0, col_C = 0\<rparr>
     = col_C \<lparr>col_O = 0, col_H = pow2 (- 1074), col_L = 0, col_C = 0\<rparr> \<and>
   col_H \<lparr>col_O = 0, col_H = pow2 (- 1074), col_L = 0, col_C = 0\<rparr>
     \<noteq> col_L \<lparr>col_O = 0, col_H = pow2 (- 1074), col_L = 0, col_C = 0\<rparr> \<and>
   0 < default_threshold \<and>
   detect_doji [\<lparr>col_O = 0, col_H = pow2 (- 1074), col_L = 0, col_C = 0\<rparr>] default_threshold
     = Inr [False]"
proof -
  let ?c = "\<lparr>col_O = 0, col_H = pow2 (- 1074), col_L = 0, col_C = 0\<rparr>"
  have pos: "0 < pow2 (- 1074)"
    by (rule pow2_pos)
  have rng: "fabs (fsub (pow2 (- 1074)) 0) = Fin (pow2 (- 1074))"
    using pos by (simp add: fsub_def fl_min_subnormal fabs_def)
  with pos have nz: "\<not> (\<exists>r \<in> set [?c]. zero_range r)"
    by (simp add: zero_range_def)
  have "default_threshold * pow2 (- 1074) < (1 / 2) * pow2 (- 1074)"
    using pos default_threshold_bounds(2) by (intro mult_strict_right_mono)
  also have "\<dots> = pow2 (- 1075)"
    using pow2_half [of "- 1074"] by simp
  finally have "fl (default_threshold * pow2 (- 1074)) = Fin 0"
    using pos default_threshold_bounds(1) by (intro fl_underflow) simp_all
  then have "fmul default_threshold (fabs (fsub (pow2 (- 1074)) 0)) = Fin 0"
    by (simp add: rng fmul_def)
  moreover have "fabs (fsub 0 0) = Fin 0"
    by (simp add: fsub_same fabs_def)
  ultimately have "detect_doji [?c] default_threshold = Inr [False]"
    using detect_doji_rows [OF nz, of default_threshold] by simp
  then show ?thesis
    using pos default_threshold_bounds(1) by simp
qed

text \<open>
  C10, amended. On a frame for which the Doji rule returns, a candle with open equal to
  close is a Doji exactly when the product of the threshold and the range
  \<open>|high - low|\<close>, as double arithmetic computes it, is greater than zero.
\<close>

theorem detect_doji_flat_body:
  "detect_doji df threshold = Inr bs \<Longrightarrow> i < length df \<Longrightarrow>
   col_O (df ! i) = col_C (df ! i) \<Longrightarrow>
   bs ! i = dlt (Fin 0) (fmul threshold (fabs (fsub (col_H (df ! i)) (col_L (df ! i)))))"
proof -
  assume ret: "detect_doji df threshold = Inr bs" and i: "i < length df"
    and flat: "col_O (df ! i) = col_C (df ! i)"
  from ret have "\<not> (\<exists>r \<in> set df. zero_range r)"
    using detect_doji_zero_range [of df threshold] by auto
  from detect_doji_rows [OF this, of threshold] ret
  have "bs = map (\<lambda>r. dlt (fabs (fsub (col_O r) (col_C r)))
                         (fmul threshold (fabs (fsub (col_H r) (col_L r))))) df"
    by simp
  with i flat show ?thesis
    by (simp add: fsub_same fabs_def)
qed

lemma fl_2: "fl 2 = Fin 2"
  by (rule fl_normal [where e = 1]) (simp_all add: eval_defs)

lemma fl_threshold_2: "fl (default_threshold * 2) = Fin (3602879701896397 / 2 ^ 54)"
  unfolding default_threshold_value
  by (rule fl_normal [where e = "- 3"]) (simp_all add: eval_defs)

lemma doji_example:
  "detect_doji [\<lparr>col_O = 10, col_H = 11, col_L = 9, col_C = 10\<rparr>] default_threshold = Inr [True]"
proof -
  let ?c = "\<lparr>col_O = 10, col_H = 11, col_L = 9, col_C = 10\<rparr>"
  have rng: "fabs (fsub 11 9) = Fin 2"
    by (simp add: fsub_def fl_2 fabs_def)
  then have nz: "\<not> (\<exists>r \<in> set [?c]. zero_range r)"
    by (simp add: zero_range_def)
  have "fmul default_threshold (Fin 2) = Fin (3602879701896397 / 2 ^ 54)"
    by (simp add: fmul_def fl_threshold_2)
  moreover have "fabs (fsub 10 10) = Fin 0"
    by (simp add: fsub_same fabs_def)
  ultimately show ?thesis
    using detect_doji_rows [OF nz, of default_threshold] rng by simp
qed

theorem detect_doji_flat_body_witness:
  "detect_doji [\<lparr>col_O = 10, col_H = 11, col_L = 9, col_C = 10\<rparr>] default_threshold = Inr [True] \<and>
   [True] ! 0 = dlt (Fin 0) (fmul default_threshold (fabs (fsub 11 9)))"
  using detect_doji_flat_body [OF doji_example, of 0] doji_example
  by simp

text \<open>
  Rounding decides the candle (10, 11, 10, 10.1) at the default threshold: the cell of
  \<^verbatim>\<open>10.1\<close> lies below 10.1, the body \<open>10.1 - 10\<close> comes out below the double of \<^verbatim>\<open>0.1\<close>,
  and the rule returns true, where the same comparison on exact decimals is false.
\<close>

lemma cell_10_1: "round_double (101 / 10) = 5685794529555251 / 2 ^ 49"
  by (rule round_double_normal [where e = 3]) (simp_all add: eval_defs)

lemma rounding_candle_cells:
  "fl (10 - 5685794529555251 / 2 ^ 49) = Fin (- (56294995342131 / 2 ^ 49))"
  "fl (11 - 10) = Fin 1"
  "fl (default_threshold * 1) = Fin (3602879701896397 / 2 ^ 55)"
proof -
  show "fl (10 - 5685794529555251 / 2 ^ 49) = Fin (- (56294995342131 / 2 ^ 49))"
    by (rule fl_normal [where e = "- 4"]) (simp_all add: eval_defs)
  show "fl (11 - 10) = Fin 1"
    by (rule fl_normal [where e = 0]) (simp_all add: eval_defs)
  show "fl (default_threshold * 1) = Fin (3602879701896397 / 2 ^ 55)"
    unfolding default_threshold_value
    by (rule fl_normal [where e = "- 4"]) (simp_all add: eval_defs)
qed

lemma doji_rounding_example:
  "detect_doji [\<lparr>col_O = 10, col_H = 11, col_L = 10, col_C = round_double (101 / 10)\<rparr>]
     default_threshold = Inr [True]"
proof -
  let ?c = "\<lparr>col_O = 10, col_H = 11, col_L = 10, col_C = 5685794529555251 / 2 ^ 49\<rparr>"
  have nz: "\<not> (\<exists>r \<in> set [?c]. zero_range r)"
    using rounding_candle_cells(2) by (simp add: zero_range_def fsub_def fabs_def)
  have "detect_doji [?c] default_threshold = Inr [True]"
    using detect_doji_rows [OF nz, of default_threshold] rounding_candle_cells
    by (simp add: fsub_def fabs_def fmul_def)
  then show ?thesis
    by (simp only: cell_10_1)
qed

section \<open>Properties of the Engulfing rule\<close>

lemma length_shift: "length (shift df) = length df"
  by (simp add: shift_def)

lemma nth_shift_0: "df \<noteq> [] \<Longrightarrow> shift df ! 0 = None"
  by (cases df) (simp_all add: shift_def)

lemma nth_shift_Suc: "Suc i < length df \<Longrightarrow> shift df ! Suc i = Some (df ! i)"
  by (simp add: shift_def)

lemmas mask_defs = be_mask_def se_mask_def prev_bear_def prev_bull_def curr_bull_def curr_bear_def
  and_s_def le_s_def ge_s_def lt_s_def gt_s_def column_def column_opt_def Let_def

lemma length_be_mask: "length (be_mask df) = length df"
  by (simp add: mask_defs length_shift)

lemma length_se_mask: "length (se_mask df) = length df"
  by (simp add: mask_defs length_shift)

lemma be_mask_0: "df \<noteq> [] \<Longrightarrow> be_mask df ! 0 \<noteq> Some True"
  by (simp add: mask_defs length_shift nth_shift_0 lift2_def and_na_def)

lemma se_mask_0: "df \<noteq> [] \<Longrightarrow> se_mask df ! 0 \<noteq> Some True"
  by (simp add: mask_defs length_shift nth_shift_0 lift2_def and_na_def)

lemma be_mask_Suc:
  "Suc i < length df \<Longrightarrow>
   be_mask df ! Suc i =
     Some (col_C (df ! i) < col_O (df ! i) \<and> col_C (df ! Suc i) > col_O (df ! Suc i) \<and>
           col_O (df ! Suc i) \<le> col_C (df ! i) \<and> col_C (df ! Suc i) \<ge> col_O (df ! i))"
  by (auto simp add: mask_defs length_shift nth_shift_Suc lift2_def and_na_def)

lemma se_mask_Suc:
  "Suc i < length df \<Longrightarrow>
   se_mask df ! Suc i =
     Some (col_C (df ! i) > col_O (df ! i) \<and> col_C (df ! Suc i) < col_O (df ! Suc i) \<and>
           col_O (df ! Suc i) \<ge> col_C (df ! i) \<and> col_C (df ! Suc i) \<le> col_O (df ! i))"
  by (auto simp add: mask_defs length_shift nth_shift_Suc lift2_def and_na_def)

lemma fillna_nth: "i < length xs \<Longrightarrow> fillna False xs ! i = (xs ! i = Some True)"
  by (auto simp add: fillna_def split: option.splits)

lemma length_detect_engulfing: "length (detect_engulfing df) = length df"
  by (simp add: detect_engulfing_def assign_where_def fillna_def length_be_mask length_se_mask)

lemma detect_engulfing_nth_fillna:
  "i < length df \<Longrightarrow>
   detect_engulfing df ! i =
     (if fillna False (se_mask df) ! i then ''Bearish Engulfing''
      else if fillna False (be_mask df) ! i then ''Bullish Engulfing'' else '''')"
  by (simp add: detect_engulfing_def assign_where_def fillna_def length_be_mask length_se_mask)

lemma detect_engulfing_nth:
  "i < length df \<Longrightarrow>
   detect_engulfing df ! i =
     (if se_mask df ! i = Some True then ''Bearish Engulfing''
      else if be_mask df ! i = Some True then ''Bullish Engulfing'' else '''')"
  by (simp add: detect_engulfing_nth_fillna fillna_nth length_be_mask length_se_mask)

text \<open>
  C3. For an adjacent pair \<open>prev = df ! i\<close>, \<open>curr = df ! Suc i\<close> the rule labels \<open>curr\<close>
  Bullish Engulfing exactly when \<open>prev\<close> is bearish, \<open>curr\<close> is bullish,
  \<open>curr.open \<le> prev.close\<close> and \<open>curr.close \<ge> prev.open\<close>; Bearish Engulfing exactly
  in the mirrored case; and with the empty label otherwise. A flat candle in either role
  gives the empty label.
\<close>

theorem detect_engulfing_pair:
  "Suc i < length df \<Longrightarrow>
   ((detect_engulfing df ! Suc i = ''Bullish Engulfing'') =
      (col_C (df ! i) < col_O (df ! i) \<and> col_C (df ! Suc i) > col_O (df ! Suc i) \<and>
       col_O (df ! Suc i) \<le> col_C (df ! i) \<and> col_C (df ! Suc i) \<ge> col_O (df ! i))) \<and>
   ((detect_engulfing df ! Suc i = ''Bearish Engulfing'') =
      (col_C (df ! i) > col_O (df ! i) \<and> col_C (df ! Suc i) < col_O (df ! Suc i) \<and>
       col_O (df ! Suc i) \<ge> col_C (df ! i) \<and> col_C (df ! Suc i) \<le> col_O (df ! i))) \<and>
   ((detect_engulfing df ! Suc i = '''') =
      (\<not> (col_C (df ! i) < col_O (df ! i) \<and> col_C (df ! Suc i) > col_O (df ! Suc i) \<and>
          col_O (df ! Suc i) \<le> col_C (df ! i) \<and> col_C (df ! Suc i) \<ge> col_O (df ! i)) \<and>
       \<not> (col_C (df ! i) > col_O (df ! i) \<and> col_C (df ! Suc i) < col_O (df ! Suc i) \<and>
          col_O (df ! Suc i) \<ge> col_C (df ! i) \<and> col_C (df ! Suc i) \<le> col_O (df ! i)))) \<and>
   (col_O (df ! i) = col_C (df ! i) \<or> col_O (df ! Suc i) = col_C (df ! Suc i) \<longrightarrow>
      detect_engulfing df ! Suc i = '''')"
  by (auto simp add: detect_engulfing_nth be_mask_Suc se_mask_Suc)

theorem detect_engulfing_pair_witness:
  "detect_engulfing
     [\<lparr>col_O = 12, col_H = 61 / 5, col_L = 10, col_C = 21 / 2\<rparr>,
      \<lparr>col_O = 51 / 5, col_H = 25 / 2, col_L = 10, col_C = 123 / 10\<rparr>,
      \<lparr>col_O = 12, col_H = 13, col_L = 11, col_C = 12\<rparr>] ! Suc 0
     = ''Bullish Engulfing'' \<and>
   detect_engulfing
     [\<lparr>col_O = 12, col_H = 61 / 5, col_L = 10, col_C = 21 / 2\<rparr>,
      \<lparr>col_O = 51 / 5, col_H = 25 / 2, col_L = 10, col_C = 123 / 10\<rparr>,
      \<lparr>col_O = 12, col_H = 13, col_L = 11, col_C = 12\<rparr>] ! Suc (Suc 0)
     = ''''"
  using detect_engulfing_pair
          [of 0 "[\<lparr>col_O = 12, col_H = 61 / 5, col_L = 10, col_C = 21 / 2\<rparr>,
                  \<lparr>col_O = 51 / 5, col_H = 25 / 2, col_L = 10, col_C = 123 / 10\<rparr>,
                  \<lparr>col_O = 12, col_H = 13, col_L = 11, col_C = 12\<rparr>]"]
        detect_engulfing_pair
          [of "Suc 0" "[\<lparr>col_O = 12, col_H = 61 / 5, col_L = 10, col_C = 21 / 2\<rparr>,
                  \<lparr>col_O = 51 / 5, col_H = 25 / 2, col_L = 10, col_C = 123 / 10\<rparr>,
                  \<lparr>col_O = 12, col_H = 13, col_L = 11, col_C = 12\<rparr>]"]
  by simp

text \<open>
  C4. In a non-empty sequence the first record has no predecessor, and its Engulfing
  label is the empty string whatever its fields are.
\<close>

theorem detect_engulfing_first:
  "df \<noteq> [] \<Longrightarrow> detect_engulfing df ! 0 = ''''"
  using be_mask_0 [of df] se_mask_0 [of df]
  by (simp add: detect_engulfing_nth)

theorem detect_engulfing_first_witness:
  "detect_engulfing
     [\<lparr>col_O = 51 / 5, col_H = 25 / 2, col_L = 10, col_C = 123 / 10\<rparr>,
      \<lparr>col_O = 12, col_H = 61 / 5, col_L = 10, col_C = 21 / 2\<rparr>] ! 0 = ''''"
  using detect_engulfing_first
          [of "[\<lparr>col_O = 51 / 5, col_H = 25 / 2, col_L = 10, col_C = 123 / 10\<rparr>,
                \<lparr>col_O = 12, col_H = 61 / 5, col_L = 10, col_C = 21 / 2\<rparr>]"]
  by simp

text \<open>
  C5. At no record are the bullish mask and the bearish mask both true, so the second
  assignment never overwrites a Bullish Engulfing label and no record is classified
  both ways.
\<close>

theorem engulfing_masks_exclusive:
  "i < length df \<Longrightarrow> \<not> (be_mask df ! i = Some True \<and> se_mask df ! i = Some True)"
proof (cases i)
  case 0
  assume "i < length df"
  with 0 have "df \<noteq> []" by auto
  with 0 show ?thesis using be_mask_0 [of df] by simp
next
  case (Suc j)
  assume "i < length df"
  with Suc show ?thesis by (auto simp add: be_mask_Suc se_mask_Suc)
qed

theorem engulfing_masks_exclusive_witness:
  "\<not> (be_mask [\<lparr>col_O = 12, col_H = 61 / 5, col_L = 10, col_C = 21 / 2\<rparr>,
                \<lparr>col_O = 51 / 5, col_H = 25 / 2, col_L = 10, col_C = 123 / 10\<rparr>] ! 1 = Some True \<and>
       se_mask [\<lparr>col_O = 12, col_H = 61 / 5, col_L = 10, col_C = 21 / 2\<rparr>,
                \<lparr>col_O = 51 / 5, col_H = 25 / 2, col_L = 10, col_C = 123 / 10\<rparr>] ! 1 = Some True)"
  using engulfing_masks_exclusive
          [of 1 "[\<lparr>col_O = 12, col_H = 61 / 5, col_L = 10, col_C = 21 / 2\<rparr>,
                  \<lparr>col_O = 51 / 5, col_H = 25 / 2, col_L = 10, col_C = 123 / 10\<rparr>]"]
  by simp

section \<open>Properties of the Hammer-like rule and of the detector\<close>

lemma getattr_list_min: "getattr_list ''min'' = Inl (AttributeError ''min'')"
  by (simp add: getattr_list_def list_methods_def)

lemma detect_hammer_Inl: "detect_hammer df body_to_range lower_wick_min = Inl (AttributeError ''min'')"
  by (simp add: detect_hammer_def getattr_list_min Let_def)

lemma detect_patterns_error:
  "detect_patterns df =
     Inl (if \<exists>r \<in> set df. zero_range r
          then TypeError ''boolean value of NA is ambiguous''
          else AttributeError ''min'')"
proof (cases "\<exists>r \<in> set df. zero_range r")
  case True
  then show ?thesis
    by (simp add: detect_patterns_def detect_doji_zero_range Let_def)
next
  case False
  then show ?thesis
    by (simp add: detect_patterns_def detect_doji_rows detect_hammer_Inl Let_def)
qed

lemma fabs_zero: "(fabs x = Fin 0) = (x = Fin 0)"
  by (cases x) (simp_all add: fabs_def)

text \<open>A difference in the normal range whose scaled value does not round to zero.\<close>

lemma fl_nonzero:
  assumes lo: "1 / 2 ^ 64 \<le> \<bar>x\<bar>"
    and e: "ilog2 \<bar>x\<bar> = e"
    and n: "round_half_even (x / pow2 (e - 52)) \<noteq> 0"
  shows "fl x \<noteq> Fin 0"
proof -
  have "round_double x = real_of_int (round_half_even (x / pow2 (e - 52))) * pow2 (e - 52)"
    using lo e by (rule round_double_normal) simp
  with n have "round_double x \<noteq> 0"
    using pow2_pos [of "e - 52"] by simp
  then show ?thesis
    by (simp add: fl_def Let_def)
qed

text \<open>
  C1. The Hammer-like rule is specified to return, for every candle, the truth value of
  its three conditions, and false on range zero without an error. The function of the
  source returns no value: on every frame and for every choice of the two parameters it
  raises \<^verbatim>\<open>AttributeError\<close> at the lookup of \<^verbatim>\<open>min\<close>, so its result is never the
  specified classification of the rows.
\<close>

theorem detect_hammer_raises:
  "detect_hammer df body_to_range lower_wick_min = Inl (AttributeError ''min'') \<and>
   detect_hammer df body_to_range lower_wick_min
     \<noteq> Inr (map (hammer_like_spec body_to_range lower_wick_min) df)"
  by (simp add: detect_hammer_Inl)

text \<open>
  C8. The detector is specified to complete without an error on every sequence of
  candles, degenerate ones included. The detector of the source raises on every
  sequence: \<^verbatim>\<open>TypeError\<close>, from the Doji rule, when a row has range zero, as for the one
  candle with open, high, low and close all 10; and \<^verbatim>\<open>AttributeError\<close>, from the
  Hammer-like rule, otherwise.
\<close>

theorem detect_patterns_raises:
  "detect_patterns df =
     Inl (if \<exists>r \<in> set df. zero_range r
          then TypeError ''boolean value of NA is ambiguous''
          else AttributeError ''min'') \<and>
   detect_patterns [\<lparr>col_O = 10, col_H = 10, col_L = 10, col_C = 10\<rparr>]
     = Inl (TypeError ''boolean value of NA is ambiguous'')"
  using zero_range_flat [of "\<lparr>col_O = 10, col_H = 10, col_L = 10, col_C = 10\<rparr>"]
  by (simp add: detect_patterns_error)

lemma three_rows_range:
  "\<not> zero_range \<lparr>col_O = 12, col_H = 61 / 5, col_L = 10, col_C = 21 / 2\<rparr>"
  "\<not> zero_range \<lparr>col_O = 51 / 5, col_H = 25 / 2, col_L = 10, col_C = 123 / 10\<rparr>"
  "\<not> zero_range \<lparr>col_O = 12, col_H = 13, col_L = 11, col_C = 12\<rparr>"
proof -
  have "fl (61 / 5 - 10) \<noteq> Fin 0"
    by (rule fl_nonzero [where e = 1]) (simp_all add: eval_defs)
  then show "\<not> zero_range \<lparr>col_O = 12, col_H = 61 / 5, col_L = 10, col_C = 21 / 2\<rparr>"
    by (simp add: zero_range_def fabs_zero fsub_def)
  have "fl (25 / 2 - 10) \<noteq> Fin 0"
    by (rule fl_nonzero [where e = 1]) (simp_all add: eval_defs)
  then show "\<not> zero_range \<lparr>col_O = 51 / 5, col_H = 25 / 2, col_L = 10, col_C = 123 / 10\<rparr>"
    by (simp add: zero_range_def fabs_zero fsub_def)
  have "fl (13 - 11) \<noteq> Fin 0"
    by (rule fl_nonzero [where e = 1]) (simp_all add: eval_defs)
  then show "\<not> zero_range \<lparr>col_O = 12, col_H = 13, col_L = 11, col_C = 12\<rparr>"
    by (simp add: zero_range_def fabs_zero fsub_def)
qed

text \<open>
  C7. The detector is specified to return the input rows, unchanged and in order, with
  the four columns Doji, HammerLike, Engulfing and Pattern added. On the three-row table
  of a bearish candle, the bullish candle that engulfs it and a flat candle, as on every
  table, the detector of the source returns no table.
\<close>

theorem detect_patterns_no_table:
  "detect_patterns
     [\<lparr>col_O = 12, col_H = 61 / 5, col_L = 10, col_C = 21 / 2\<rparr>,
      \<lparr>col_O = 51 / 5, col_H = 25 / 2, col_L = 10, col_C = 123 / 10\<rparr>,
      \<lparr>col_O = 12, col_H = 13, col_L = 11, col_C = 12\<rparr>] = Inl (AttributeError ''min'') \<and>
   (\<nexists>out. detect_patterns df = Inr out)"
  by (simp add: detect_patterns_error three_rows_range)

lemma doji_candle_cells:
  "fsub 10 (161 / 16) = Fin (- (1 / 16))"
  "fsub (21 / 2) (39 / 4) = Fin (3 / 4)"
  "fl (default_threshold * 3 / 4) = Fin (5404319552844596 / 2 ^ 56)"
proof -
  show "fsub 10 (161 / 16) = Fin (- (1 / 16))"
    unfolding fsub_def
    by (rule fl_normal [where e = "- 4"]) (simp_all add: eval_defs)
  show "fsub (21 / 2) (39 / 4) = Fin (3 / 4)"
    unfolding fsub_def
    by (rule fl_normal [where e = "- 1"]) (simp_all add: eval_defs)
  show "fl (default_threshold * 3 / 4) = Fin (5404319552844596 / 2 ^ 56)"
    unfolding default_threshold_value
    by (rule fl_normal [where e = "- 4"]) (simp_all add: eval_defs)
qed

lemma doji_candle:
  "detect_doji [\<lparr>col_O = 10, col_H = 21 / 2, col_L = 39 / 4, col_C = 161 / 16\<rparr>] default_threshold
     = Inr [True]"
proof -
  let ?c = "\<lparr>col_O = 10, col_H = 21 / 2, col_L = 39 / 4, col_C = 161 / 16\<rparr>"
  have nz: "\<not> (\<exists>r \<in> set [?c]. zero_range r)"
    by (simp add: zero_range_def doji_candle_cells fabs_def)
  show ?thesis
    using detect_doji_rows [OF nz, of default_threshold]
    by (simp add: doji_candle_cells fabs_def fmul_def)
qed

text \<open>
  C6. Every record is specified to get a Pattern label made of the names of the rules
  that fired. The Doji rule fires on the candle (10, 10.5, 9.75, 10.0625), so its label
  should hold Doji; the detector of the source, called on that candle, raises
  \<^verbatim>\<open>AttributeError\<close> before the combiner runs and gives the record no label.
\<close>

theorem detect_patterns_no_label:
  "detect_doji [\<lparr>col_O = 10, col_H = 21 / 2, col_L = 39 / 4, col_C = 161 / 16\<rparr>] default_threshold
     = Inr [True] \<and>
   detect_patterns [\<lparr>col_O = 10, col_H = 21 / 2, col_L = 39 / 4, col_C = 161 / 16\<rparr>]
     = Inl (AttributeError ''min'')"
proof -
  have "\<not> zero_range \<lparr>col_O = 10, col_H = 21 / 2, col_L = 39 / 4, col_C = 161 / 16\<rparr>"
    by (simp add: zero_range_def doji_candle_cells fabs_def)
  then show ?thesis
    by (simp add: doji_candle detect_patterns_error)
qed

section \<open>Properties of the combiner\<close>

text \<open>
  The helper \<open>_combine\<close>, applied to a row that has the three rule columns, joins the
  names of the rules that fired in the order Doji, HammerLike, Engulfing, with a comma
  and a space between them, and gives the empty string when no rule fired.
\<close>

lemma combine_cases:
  "combine r =
     (if Doji r then
        (if HammerLike r then
           (if Engulfing r \<noteq> [] then ''Doji, HammerLike, '' @ Engulfing r else ''Doji, HammerLike'')
         else
           (if Engulfing r \<noteq> [] then ''Doji, '' @ Engulfing r else ''Doji''))
      else
        (if HammerLike r then
           (if Engulfing r \<noteq> [] then ''HammerLike, '' @ Engulfing r else ''HammerLike'')
         else
           (if Engulfing r \<noteq> [] then Engulfing r else '''')))"
  by (simp add: combine_def Let_def)

section \<open>Properties of the column check\<close>

lemma dom_fold_cols:
  "dom (fold (\<lambda>c m. m(lower c \<mapsto> c)) columns m0) = dom m0 \<union> lower ` set columns"
  by (induction columns arbitrary: m0) auto

lemma dom_cols_of: "dom (cols_of columns) = set (map lower columns)"
  using dom_fold_cols [of columns Map.empty] by (simp add: cols_of_def)

lemma cols_of_None: "(cols_of columns name = None) = (name \<notin> set (map lower columns))"
proof -
  have "(cols_of columns name = None) = (name \<notin> dom (cols_of columns))"
    by (simp add: domIff)
  then show ?thesis
    by (simp only: dom_cols_of)
qed

lemma build_mapping_missing:
  "\<forall>n \<in> set names. n \<noteq> [] \<Longrightarrow> \<exists>n \<in> set names. cols n = None \<Longrightarrow>
   \<exists>n \<in> set names. cols n = None \<and> build_mapping cols names mapping = Inl (KeyError (missing_msg n))"
proof (induction names arbitrary: mapping)
  case Nil
  then show ?case by simp
next
  case (Cons name names)
  show ?case
  proof (cases "cols name")
    case None
    then show ?thesis by simp
  next
    case (Some c)
    from Cons.prems obtain ch rest where name: "name = ch # rest"
      by (cases name) auto
    from Cons.prems Some have missing: "\<exists>n \<in> set names. cols n = None"
      by auto
    from Cons.prems have nonempty: "\<forall>n \<in> set names. n \<noteq> []"
      by simp
    from Cons.IH [OF nonempty missing, of "mapping(c \<mapsto> [upper_char ch])"]
    obtain n where n: "n \<in> set names" "cols n = None"
      "build_mapping cols names (mapping(c \<mapsto> [upper_char ch])) = Inl (KeyError (missing_msg n))"
      by blast
    have "build_mapping cols (name # names) mapping = Inl (KeyError (missing_msg n))"
      using Some name n(3) by (simp del: fun_upd_apply)
    with n(1,2) show ?thesis
      by auto
  qed
qed

lemma build_mapping_present:
  "\<forall>n \<in> set names. n \<noteq> [] \<Longrightarrow> \<forall>n \<in> set names. cols n \<noteq> None \<Longrightarrow>
   \<exists>m. build_mapping cols names mapping = Inr m"
proof (induction names arbitrary: mapping)
  case Nil
  then show ?case by simp
next
  case (Cons name names)
  from Cons.prems obtain c where c: "cols name = Some c"
    by auto
  from Cons.prems obtain ch rest where name: "name = ch # rest"
    by (cases name) auto
  from Cons.prems have nonempty: "\<forall>n \<in> set names. n \<noteq> []"
    and present: "\<forall>n \<in> set names. cols n \<noteq> None"
    by simp_all
  from Cons.IH [OF nonempty present, of "mapping(c \<mapsto> [upper_char ch])"]
  obtain m where "build_mapping cols names (mapping(c \<mapsto> [upper_char ch])) = Inr m"
    by blast
  then have "build_mapping cols (name # names) mapping = Inr m"
    using c name by (simp del: fun_upd_apply)
  then show ?case
    by blast
qed

lemma required_nonempty: "\<forall>n \<in> set required. n \<noteq> []"
  by (simp add: required_def)

text \<open>
  The function \<open>main\<close>, had it run: when one of the four required names is among no
  column's lower-case name, it prints the message of the \<^verbatim>\<open>KeyError\<close> naming an absent
  column on the error stream, writes nothing else and returns 2; when the four names are
  present the column check returns the renamed columns.
\<close>

lemma main_column_check:
  "((\<exists>name \<in> set required. name \<notin> set (map lower columns)) \<longrightarrow>
      (\<exists>name \<in> set required. name \<notin> set (map lower columns) \<and>
         main a columns df plot_exn =
           ([Stderr ([CHR 0x22] @ ''Input CSV must contain column '' @ [CHR 0x27] @ name @
                     [CHR 0x27] @ '' (case-insensitive)'' @ [CHR 0x22])], Inr 2))) \<and>
   ((\<forall>name \<in> set required. name \<in> set (map lower columns)) \<longrightarrow>
      (\<exists>columns'. normalize_cols columns = Inr columns'))"
proof (intro conjI impI)
  assume "\<exists>name \<in> set required. name \<notin> set (map lower columns)"
  then have "\<exists>n \<in> set required. cols_of columns n = None"
    by (simp add: cols_of_None)
  from build_mapping_missing [OF required_nonempty this, of Map.empty]
  obtain n where n: "n \<in> set required" "cols_of columns n = None"
    "build_mapping (cols_of columns) required Map.empty = Inl (KeyError (missing_msg n))"
    by blast
  from n(3) have "main a columns df plot_exn =
      ([Stderr ([CHR 0x22] @ ''Input CSV must contain column '' @ [CHR 0x27] @ n @
                [CHR 0x27] @ '' (case-insensitive)'' @ [CHR 0x22])], Inr 2)"
    by (simp add: main_def normalize_cols_def str_KeyError_def missing_msg_def)
  with n(1,2) show "\<exists>name \<in> set required. name \<notin> set (map lower columns) \<and>
         main a columns df plot_exn =
           ([Stderr ([CHR 0x22] @ ''Input CSV must contain column '' @ [CHR 0x27] @ name @
                     [CHR 0x27] @ '' (case-insensitive)'' @ [CHR 0x22])], Inr 2)"
    using cols_of_None [of columns n] by blast
next
  assume "\<forall>name \<in> set required. name \<in> set (map lower columns)"
  then have "\<forall>n \<in> set required. cols_of columns n \<noteq> None"
    using cols_of_None by blast
  from build_mapping_present [OF required_nonempty this, of Map.empty]
  show "\<exists>columns'. normalize_cols columns = Inr columns'"
    by (auto simp add: normalize_cols_def)
qed

lemma lower_examples:
  "lower ''Date'' = ''date''" "lower ''Open'' = ''open''" "lower ''HIGH'' = ''high''"
  "lower ''low'' = ''low''" "lower ''Close'' = ''close''"
  by code_simp+

lemma main_missing_high:
  "main \<lparr>arg_input = ''in.csv'', arg_output = Some ''out.csv'', arg_plot = False\<rparr>
        [''Date'', ''Open'', ''low'', ''Close'']
        [\<lparr>col_O = 10, col_H = 11, col_L = 9, col_C = 10\<rparr>] None
     = ([Stderr ([CHR 0x22] @ ''Input CSV must contain column '' @ [CHR 0x27] @ ''high'' @
                 [CHR 0x27] @ '' (case-insensitive)'' @ [CHR 0x22])], Inr 2)"
  by (simp add: main_def normalize_cols_def cols_of_def required_def lower_examples
        missing_msg_def str_KeyError_def)

section \<open>Properties of the script\<close>

lemma compile_module_body:
  "compile_module module_body =
     Inl (SyntaxError ''from __future__ imports must occur at the beginning of the file'')"
  by (simp add: compile_module_def module_body_def)

text \<open>
  C9. The program is specified to report a missing column to the user and to exit with
  its own non-zero code. The script of the source does not compile: the second string
  literal stands before \<^verbatim>\<open>from __future__ import annotations\<close>, so every run, whatever the
  table and the arguments, ends with \<^verbatim>\<open>SyntaxError\<close> and status 1 before \<open>main\<close> is
  called, and nothing about a column is printed.
\<close>

theorem run_script_syntax_error:
  "run_script a columns df plot_exn =
     ([], Inl (SyntaxError ''from __future__ imports must occur at the beginning of the file'')) \<and>
   exit_status (snd (run_script a columns df plot_exn)) = 1"
  by (simp add: run_script_def compile_module_body exit_status_def)

end
